theory Spec2Isabelle
  imports Main
begin

section \<open>The vLLM client adapter (package vllm)\<close>

text \<open>
  The package adapts an OpenAI-compatible completion transport (go-openai) to the chat
  interfaces of the host framework (package llm). Go values are modelled as follows.
  \<^item> A Go struct is a record; fields keep their Go names, with a prefix where two structs
    share a field name.
  \<^item> A Go result pair \<open>(*T, error)\<close> is a pair of options: \<open>None\<close> is \<open>nil\<close>.
  \<^item> A pointer receiver that the method mutates (\<open>c *Client\<close>, the stream cursor) is passed
    in and returned updated. Receivers and the request pointer are taken as non-nil: the
    model works on the pointees.
  \<^item> The \<open>context.Context\<close> argument is only handed on to the transport; it is part of what
    the transport parameter stands for.
\<close>

subsection \<open>Errors\<close>

text \<open>
  The error values the package can see: the sentinel \<open>io.EOF\<close>, an error made outside the
  package (transport, network) with its text, \<open>fmt.Errorf\<close> without \<open>%w\<close>, and
  \<open>fmt.Errorf(prefix + "%w", err)\<close>, which keeps the cause. Go compares errors by identity;
  here two errors are the same when they are built the same way.
\<close>

datatype error =
    EOF
  | External string
  | Errorf string
  | Errorf_w string error

text \<open>The \<open>Error()\<close> text and \<open>errors.Unwrap\<close>.\<close>

fun Error :: "error \<Rightarrow> string" where
  "Error EOF = ''EOF''"
| "Error (External s) = s"
| "Error (Errorf s) = s"
| "Error (Errorf_w p e) = p @ Error e"

fun Unwrap :: "error \<Rightarrow> error option" where
  "Unwrap (Errorf_w p e) = Some e"
| "Unwrap e = None"

subsection \<open>Types of the host framework (package llm)\<close>

type_synonym llm_Role = string

text \<open>
  Modelled from the spec: the constant \<open>llm.RoleAssistant\<close> belongs to the host framework
  and is not among the sources. The spec fixes the role of a delta to "assistant", and
  \<open>TestChat_Success\<close> compares the wire role "assistant" with this constant.
\<close>

definition RoleAssistant :: llm_Role where
  "RoleAssistant = ''assistant''"

record llm_Message =
  Role :: llm_Role
  Content :: string

record llm_ChatRequest =
  Messages :: "llm_Message list"

record llm_ChatResponse =
  Message :: llm_Message

subsection \<open>Types of the transport (package openai)\<close>

record ClientConfig =
  authToken :: string
  cfg_BaseURL :: string

text \<open>
  An \<open>*openai.Client\<close> is never written through by this package, so the pointer is
  modelled as the object together with its identity: \<open>client_id\<close> is the allocation number
  given by \<open>NewClientWithConfig\<close>. Two handles are the same pointer when they are equal.
\<close>

record openai_Client =
  client_id :: nat
  config :: ClientConfig

record ChatCompletionMessage =
  msg_Role :: string
  msg_Content :: string

record ChatCompletionRequest =
  req_Model :: string
  req_Messages :: "ChatCompletionMessage list"
  req_Stream :: bool

record ChatCompletionChoice =
  choice_Message :: ChatCompletionMessage

record ChatCompletionResponse =
  Choices :: "ChatCompletionChoice list"

record ChatCompletionStreamChoiceDelta =
  delta_Content :: string

record ChatCompletionStreamChoice =
  Delta :: ChatCompletionStreamChoiceDelta

record ChatCompletionStreamResponse =
  stream_Choices :: "ChatCompletionStreamChoice list"

text \<open>
  The transport's cursor is the sequence of results its \<open>Recv\<close> will report, in order:
  \<open>Inr\<close> a chunk, \<open>Inl\<close> an error (\<open>Inl EOF\<close> after the \<open>[DONE]\<close> line). A cursor that
  has nothing left reports \<open>io.EOF\<close>. Every behaviour of the real cursor is one such
  sequence, so a statement about all sequences covers it.
\<close>

type_synonym ChatCompletionStream = "(error + ChatCompletionStreamResponse) list"

definition stream_Recv ::
  "ChatCompletionStream \<Rightarrow> (error + ChatCompletionStreamResponse) \<times> ChatCompletionStream" where
  "stream_Recv st = (case st of [] \<Rightarrow> (Inl EOF, []) | x # xs \<Rightarrow> (x, xs))"

subsection \<open>The world outside the client\<close>

text \<open>
  \<open>allocs\<close> counts the transport handles built so far; \<open>net\<close> is the log of the
  completion calls issued to the transport, each with the handle it went through and the
  wire request.
\<close>

record net_call =
  via :: "openai_Client option"
  wire :: ChatCompletionRequest

record world =
  allocs :: nat
  net :: "net_call list"

text \<open>
  \<open>openai.DefaultConfig\<close> keeps the token and presets the library's own API root, which
  \<open>newOpenAIClient\<close> overwrites. \<open>openai.NewClientWithConfig\<close> allocates a new handle.
\<close>

definition DefaultConfig :: "string \<Rightarrow> ClientConfig" where
  "DefaultConfig tok = \<lparr>authToken = tok, cfg_BaseURL = ''https://api.openai.com/v1''\<rparr>"

definition NewClientWithConfig :: "ClientConfig \<Rightarrow> world \<Rightarrow> openai_Client \<times> world" where
  "NewClientWithConfig cfg w =
     (\<lparr>client_id = allocs w, config = cfg\<rparr>, w\<lparr>allocs := Suc (allocs w)\<rparr>)"

text \<open>
  The two completion calls of the transport. What the server answers is a parameter:
  \<open>srv\<close> for the synchronous call, \<open>open_stream\<close> for the streaming one. Each call is
  logged in \<open>net\<close>. The handle is passed as the pointer the caller holds.
\<close>

type_synonym completion_fn =
  "openai_Client option \<Rightarrow> ChatCompletionRequest \<Rightarrow> error + ChatCompletionResponse"

type_synonym stream_fn =
  "openai_Client option \<Rightarrow> ChatCompletionRequest \<Rightarrow> error + ChatCompletionStream"

definition CreateChatCompletion ::
  "completion_fn \<Rightarrow> openai_Client option \<Rightarrow> ChatCompletionRequest \<Rightarrow> world
     \<Rightarrow> (error + ChatCompletionResponse) \<times> world" where
  "CreateChatCompletion srv h r w = (srv h r, w\<lparr>net := net w @ [\<lparr>via = h, wire = r\<rparr>]\<rparr>)"

definition CreateChatCompletionStream ::
  "stream_fn \<Rightarrow> openai_Client option \<Rightarrow> ChatCompletionRequest \<Rightarrow> world
     \<Rightarrow> (error + ChatCompletionStream) \<times> world" where
  "CreateChatCompletionStream open_stream h r w =
     (open_stream h r, w\<lparr>net := net w @ [\<lparr>via = h, wire = r\<rparr>]\<rparr>)"

subsection \<open>The client\<close>

record Client =
  BaseURL :: string
  Model :: string
  APIKey :: string
  oa :: "openai_Client option"

text \<open>\<open>newOpenAIClient\<close>: the cached handle if there is one, else validate and build.\<close>

definition newOpenAIClient ::
  "Client \<Rightarrow> world \<Rightarrow> (openai_Client option \<times> error option) \<times> Client \<times> world" where
  "newOpenAIClient c w =
     (if oa c \<noteq> None then ((oa c, None), c, w)
      else if BaseURL c = [] then ((None, Some (Errorf ''vllm.Client.BaseURL is empty'')), c, w)
      else if Model c = [] then ((None, Some (Errorf ''vllm.Client.Model is empty'')), c, w)
      else
        let cfg = DefaultConfig (APIKey c);
            cfg = cfg\<lparr>cfg_BaseURL := BaseURL c @ ''/v1''\<rparr>;
            (h, w') = NewClientWithConfig cfg w;
            c' = c\<lparr>oa := Some h\<rparr>
        in ((oa c', None), c', w'))"

text \<open>
  The translation loop of \<open>Chat\<close> (lines 68-74) and of \<open>ChatStream\<close> (lines 107-113):
  each message is appended to the slice built so far. \<open>string(m.Role)\<close> is the role's
  own text.
\<close>

fun wire_messages ::
  "llm_Message list \<Rightarrow> ChatCompletionMessage list \<Rightarrow> ChatCompletionMessage list" where
  "wire_messages [] messages = messages"
| "wire_messages (m # ms) messages =
     wire_messages ms (messages @ [\<lparr>msg_Role = Role m, msg_Content = Content m\<rparr>])"

definition Chat ::
  "completion_fn \<Rightarrow> Client \<Rightarrow> llm_ChatRequest \<Rightarrow> world
     \<Rightarrow> (llm_ChatResponse option \<times> error option) \<times> Client \<times> world" where
  "Chat srv c req w =
     (case newOpenAIClient c w of
        ((h, Some err), c', w') \<Rightarrow> ((None, Some err), c', w')
      | ((h, None), c', w') \<Rightarrow>
          let messages = wire_messages (Messages req) [] in
          (case CreateChatCompletion srv h
                  \<lparr>req_Model = Model c', req_Messages = messages, req_Stream = False\<rparr> w' of
             (Inl err, w'') \<Rightarrow> ((None, Some (Errorf_w ''vllm chat error: '' err)), c', w'')
           | (Inr resp, w'') \<Rightarrow>
               if length (Choices resp) = 0
               then ((None, Some (Errorf ''vllm: no choices in response'')), c', w'')
               else
                 let msg = choice_Message (Choices resp ! 0) in
                 ((Some \<lparr>Message = \<lparr>Role = msg_Role msg, Content = msg_Content msg\<rparr>\<rparr>, None),
                  c', w'')))"

subsection \<open>The stream adapter\<close>

record streamWrapper =
  stream :: ChatCompletionStream

definition ChatStream ::
  "stream_fn \<Rightarrow> Client \<Rightarrow> llm_ChatRequest \<Rightarrow> world
     \<Rightarrow> (streamWrapper option \<times> error option) \<times> Client \<times> world" where
  "ChatStream open_stream c req w =
     (case newOpenAIClient c w of
        ((h, Some err), c', w') \<Rightarrow> ((None, Some err), c', w')
      | ((h, None), c', w') \<Rightarrow>
          let messages = wire_messages (Messages req) [] in
          (case CreateChatCompletionStream open_stream h
                  \<lparr>req_Model = Model c', req_Messages = messages, req_Stream = True\<rparr> w' of
             (Inl err, w'') \<Rightarrow> ((None, Some (Errorf_w ''vllm stream error: '' err)), c', w'')
           | (Inr st, w'') \<Rightarrow> ((Some \<lparr>stream = st\<rparr>, None), c', w'')))"

text \<open>\<open>Recv\<close>: one read of the cursor, turned into one of the four outcomes.\<close>

definition Recv ::
  "streamWrapper \<Rightarrow> (llm_ChatResponse option \<times> error option) \<times> streamWrapper" where
  "Recv s =
     (case stream_Recv (stream s) of
        (Inl err, st) \<Rightarrow>
          if err = EOF then ((None, Some EOF), s\<lparr>stream := st\<rparr>)
          else ((None, Some err), s\<lparr>stream := st\<rparr>)
      | (Inr chunk, st) \<Rightarrow>
          if length (stream_Choices chunk) = 0 then ((None, None), s\<lparr>stream := st\<rparr>)
          else
            let delta = Delta (stream_Choices chunk ! 0) in
            if delta_Content delta = [] then ((None, None), s\<lparr>stream := st\<rparr>)
            else
              ((Some \<lparr>Message = \<lparr>Role = RoleAssistant, Content = delta_Content delta\<rparr>\<rparr>, None),
               s\<lparr>stream := st\<rparr>))"

text \<open>A caller's \<open>n\<close> sequential pulls on one cursor, with the outcomes in order.\<close>

fun pulls ::
  "nat \<Rightarrow> streamWrapper \<Rightarrow> (llm_ChatResponse option \<times> error option) list \<times> streamWrapper" where
  "pulls 0 s = ([], s)"
| "pulls (Suc n) s =
     (case Recv s of (r, s') \<Rightarrow> (case pulls n s' of (rs, s'') \<Rightarrow> (r # rs, s'')))"

text \<open>A caller's \<open>n\<close> sequential requests for the transport handle of one client.\<close>

fun requests ::
  "nat \<Rightarrow> Client \<Rightarrow> world \<Rightarrow> (openai_Client option \<times> error option) list \<times> Client \<times> world" where
  "requests 0 c w = ([], c, w)"
| "requests (Suc n) c w =
     (case newOpenAIClient c w of
        (r, c', w') \<Rightarrow> (case requests n c' w' of (rs, c'', w'') \<Rightarrow> (r # rs, c'', w'')))"

subsection \<open>Naming the outcomes\<close>

text \<open>The two configuration errors of \<open>newOpenAIClient\<close>.\<close>

definition config_error :: "error \<Rightarrow> bool" where
  "config_error e =
     (e = Errorf ''vllm.Client.BaseURL is empty'' \<or> e = Errorf ''vllm.Client.Model is empty'')"

text \<open>
  The four results listed in the comment of \<open>Recv\<close>: a content delta, a chunk without
  content, the end of the stream, an error.
\<close>

definition is_DELTA :: "llm_ChatResponse option \<times> error option \<Rightarrow> bool" where
  "is_DELTA x = (fst x \<noteq> None \<and> snd x = None)"

definition is_EMPTY :: "llm_ChatResponse option \<times> error option \<Rightarrow> bool" where
  "is_EMPTY x = (fst x = None \<and> snd x = None)"

definition is_DONE :: "llm_ChatResponse option \<times> error option \<Rightarrow> bool" where
  "is_DONE x = (fst x = None \<and> snd x = Some EOF)"

definition is_ERROR :: "llm_ChatResponse option \<times> error option \<Rightarrow> bool" where
  "is_ERROR x = (fst x = None \<and> snd x \<noteq> None \<and> snd x \<noteq> Some EOF)"

text \<open>The contents of the deltas among a sequence of pull results, in order.\<close>

fun delta_contents :: "(llm_ChatResponse option \<times> error option) list \<Rightarrow> string list" where
  "delta_contents [] = []"
| "delta_contents ((Some r, e) # xs) = Content (Message r) # delta_contents xs"
| "delta_contents ((None, e) # xs) = delta_contents xs"

section \<open>Facts about the operations\<close>

lemma newOpenAIClient_cached:
  "oa c = Some h \<Longrightarrow> newOpenAIClient c w = ((Some h, None), c, w)"
  by (simp add: newOpenAIClient_def)

lemma newOpenAIClient_build:
  assumes "oa c = None" and "BaseURL c \<noteq> []" and "Model c \<noteq> []"
  shows "newOpenAIClient c w =
           ((Some \<lparr>client_id = allocs w,
                    config = \<lparr>authToken = APIKey c, cfg_BaseURL = BaseURL c @ ''/v1''\<rparr>\<rparr>, None),
            c\<lparr>oa := Some \<lparr>client_id = allocs w,
                    config = \<lparr>authToken = APIKey c, cfg_BaseURL = BaseURL c @ ''/v1''\<rparr>\<rparr>\<rparr>,
            w\<lparr>allocs := Suc (allocs w)\<rparr>)"
  using assms by (simp add: newOpenAIClient_def DefaultConfig_def NewClientWithConfig_def Let_def)

lemma newOpenAIClient_invalid:
  assumes "oa c = None" and "BaseURL c = [] \<or> Model c = []"
  shows "newOpenAIClient c w =
           ((None, Some (Errorf (if BaseURL c = [] then ''vllm.Client.BaseURL is empty''
                                 else ''vllm.Client.Model is empty''))), c, w)"
  using assms by (auto simp add: newOpenAIClient_def)

lemma newOpenAIClient_net: "net (snd (snd (newOpenAIClient c w))) = net w"
  by (simp add: newOpenAIClient_def DefaultConfig_def NewClientWithConfig_def Let_def)

lemma newOpenAIClient_Model: "Model (fst (snd (newOpenAIClient c w))) = Model c"
  by (simp add: newOpenAIClient_def DefaultConfig_def NewClientWithConfig_def Let_def)

lemma requests_cached:
  "oa c = Some h \<Longrightarrow> requests n c w = (replicate n (Some h, None), c, w)"
  by (induction n) (simp_all add: newOpenAIClient_cached)

lemma wire_messages_map:
  "wire_messages ms acc = acc @ map (\<lambda>m. \<lparr>msg_Role = Role m, msg_Content = Content m\<rparr>) ms"
  by (induction ms arbitrary: acc) simp_all

lemma Recv_advances: "snd (Recv s) = s\<lparr>stream := tl (stream s)\<rparr>"
  by (cases "stream s") (auto simp add: Recv_def stream_Recv_def Let_def split: sum.splits)

lemma pulls_advances: "snd (pulls n s) = s\<lparr>stream := drop n (stream s)\<rparr>"
proof (induction n arbitrary: s)
  case 0
  show ?case by simp
next
  case (Suc n)
  have "snd (pulls (Suc n) s) = snd (pulls n (snd (Recv s)))"
    by (simp split: prod.splits)
  also have "\<dots> = s\<lparr>stream := drop n (tl (stream s))\<rparr>"
    by (simp add: Suc.IH Recv_advances)
  finally show ?case by (simp add: drop_Suc)
qed

lemma pulls_snoc:
  "fst (pulls (Suc n) s) = fst (pulls n s) @ [fst (Recv (snd (pulls n s)))]"
proof (induction n arbitrary: s)
  case 0
  show ?case by (simp split: prod.splits)
next
  case (Suc n)
  have "fst (pulls (Suc (Suc n)) s) = fst (Recv s) # fst (pulls (Suc n) (snd (Recv s)))"
    by (simp split: prod.splits)
  also have "\<dots> = fst (Recv s) # (fst (pulls n (snd (Recv s))) @
                 [fst (Recv (snd (pulls n (snd (Recv s)))))])"
    by (simp only: Suc.IH)
  also have "\<dots> = fst (pulls (Suc n) s) @ [fst (Recv (snd (pulls (Suc n) s)))]"
    by (simp split: prod.splits)
  finally show ?case .
qed

lemma Chat_after_build:
  assumes "fst (newOpenAIClient c w) = (h, None)"
  shows "Chat srv c req w =
    (case srv h \<lparr>req_Model = Model c, req_Messages = wire_messages (Messages req) [],
                  req_Stream = False\<rparr> of
       Inl err \<Rightarrow> (None, Some (Errorf_w ''vllm chat error: '' err))
     | Inr resp \<Rightarrow>
         if Choices resp = [] then (None, Some (Errorf ''vllm: no choices in response''))
         else (Some \<lparr>Message = \<lparr>Role = msg_Role (choice_Message (hd (Choices resp))),
                                 Content = msg_Content (choice_Message (hd (Choices resp)))\<rparr>\<rparr>,
               None),
     fst (snd (newOpenAIClient c w)),
     (snd (snd (newOpenAIClient c w)))
       \<lparr>net := net w @ [\<lparr>via = h,
           wire = \<lparr>req_Model = Model c, req_Messages = wire_messages (Messages req) [],
                   req_Stream = False\<rparr>\<rparr>]\<rparr>)"
proof -
  obtain c' w' where n: "newOpenAIClient c w = ((h, None), c', w')"
    using assms by (metis prod.collapse)
  have m: "Model c' = Model c"
    using newOpenAIClient_Model [of c w] by (simp add: n)
  have l: "net w' = net w"
    using newOpenAIClient_net [of c w] by (simp add: n)
  show ?thesis
    by (simp add: Chat_def n m l CreateChatCompletion_def Let_def hd_conv_nth
             split: sum.splits)
qed

lemma ChatStream_after_build:
  assumes "fst (newOpenAIClient c w) = (h, None)"
  shows "ChatStream open_stream c req w =
    (case open_stream h \<lparr>req_Model = Model c, req_Messages = wire_messages (Messages req) [],
                  req_Stream = True\<rparr> of
       Inl err \<Rightarrow> (None, Some (Errorf_w ''vllm stream error: '' err))
     | Inr st \<Rightarrow> (Some \<lparr>stream = st\<rparr>, None),
     fst (snd (newOpenAIClient c w)),
     (snd (snd (newOpenAIClient c w)))
       \<lparr>net := net w @ [\<lparr>via = h,
           wire = \<lparr>req_Model = Model c, req_Messages = wire_messages (Messages req) [],
                   req_Stream = True\<rparr>\<rparr>]\<rparr>)"
proof -
  obtain c' w' where n: "newOpenAIClient c w = ((h, None), c', w')"
    using assms by (metis prod.collapse)
  have m: "Model c' = Model c"
    using newOpenAIClient_Model [of c w] by (simp add: n)
  have l: "net w' = net w"
    using newOpenAIClient_net [of c w] by (simp add: n)
  show ?thesis
    by (simp add: ChatStream_def n m l CreateChatCompletionStream_def Let_def
             split: sum.splits)
qed

lemma ChatStream_config_failure:
  assumes "snd (fst (newOpenAIClient c w)) = Some err"
  shows "fst (ChatStream open_stream c req w) = (None, Some err)"
proof -
  obtain h c' w' where n: "newOpenAIClient c w = ((h, Some err), c', w')"
    using assms by (metis prod.collapse)
  show ?thesis by (simp add: ChatStream_def n)
qed

lemma Chat_config_failure:
  assumes "snd (fst (newOpenAIClient c w)) = Some err"
  shows "Chat srv c req w = ((None, Some err), snd (newOpenAIClient c w))"
proof -
  obtain h c' w' where n: "newOpenAIClient c w = ((h, Some err), c', w')"
    using assms by (metis prod.collapse)
  show ?thesis by (simp add: Chat_def n)
qed

lemma ChatStream_config_failure_state:
  assumes "snd (fst (newOpenAIClient c w)) = Some err"
  shows "snd (snd (ChatStream open_stream c req w)) = snd (snd (newOpenAIClient c w))"
proof -
  obtain h c' w' where n: "newOpenAIClient c w = ((h, Some err), c', w')"
    using assms by (metis prod.collapse)
  show ?thesis by (simp add: ChatStream_def n)
qed

lemma Chat_new_calls:
  "drop (length (net w)) (net (snd (snd (Chat srv c req w)))) =
     (if snd (fst (newOpenAIClient c w)) = None
      then [\<lparr>via = fst (fst (newOpenAIClient c w)),
             wire = \<lparr>req_Model = Model c,
               req_Messages = map (\<lambda>m. \<lparr>msg_Role = Role m, msg_Content = Content m\<rparr>) (Messages req),
               req_Stream = False\<rparr>\<rparr>]
      else [])"
proof (cases "snd (fst (newOpenAIClient c w))")
  case None
  then have "fst (newOpenAIClient c w) = (fst (fst (newOpenAIClient c w)), None)"
    by (metis prod.collapse)
  then show ?thesis
    using None by (simp add: Chat_after_build wire_messages_map)
next
  case (Some err)
  then show ?thesis
    by (simp add: Chat_config_failure newOpenAIClient_net)
qed

lemma ChatStream_new_calls:
  "drop (length (net w)) (net (snd (snd (ChatStream open_stream c req w)))) =
     (if snd (fst (newOpenAIClient c w)) = None
      then [\<lparr>via = fst (fst (newOpenAIClient c w)),
             wire = \<lparr>req_Model = Model c,
               req_Messages = map (\<lambda>m. \<lparr>msg_Role = Role m, msg_Content = Content m\<rparr>) (Messages req),
               req_Stream = True\<rparr>\<rparr>]
      else [])"
proof (cases "snd (fst (newOpenAIClient c w))")
  case None
  then have "fst (newOpenAIClient c w) = (fst (fst (newOpenAIClient c w)), None)"
    by (metis prod.collapse)
  then show ?thesis
    using None by (simp add: ChatStream_after_build wire_messages_map)
next
  case (Some err)
  then show ?thesis
    by (simp add: ChatStream_config_failure_state newOpenAIClient_net)
qed

lemma Recv_chunk:
  "stream s = Inr chunk # rest \<Longrightarrow>
   Recv s =
     (if stream_Choices chunk = [] then (None, None)
      else if delta_Content (Delta (hd (stream_Choices chunk))) = [] then (None, None)
      else (Some \<lparr>Message = \<lparr>Role = RoleAssistant,
                                Content = delta_Content (Delta (hd (stream_Choices chunk)))\<rparr>\<rparr>,
            None),
      s\<lparr>stream := rest\<rparr>)"
  by (simp add: Recv_def stream_Recv_def Let_def hd_conv_nth)

lemma Recv_error:
  "fst (stream_Recv (stream s)) = Inl e \<Longrightarrow> fst (Recv s) = (None, Some e)"
  by (cases "stream_Recv (stream s)") (simp add: Recv_def)

lemma Recv_error_only:
  "snd (fst (Recv s)) = Some e \<Longrightarrow> fst (stream_Recv (stream s)) = Inl e"
  by (cases "stream_Recv (stream s)")
     (auto simp add: Recv_def Let_def split: sum.splits if_splits)

lemma pulls_2: "fst (pulls 2 s) = [fst (Recv s), fst (Recv (snd (Recv s)))]"
  by (simp add: numeral_2_eq_2 split: prod.splits)

lemma pulls_3:
  "fst (pulls 3 s) =
     [fst (Recv s), fst (Recv (snd (Recv s))), fst (Recv (snd (Recv (snd (Recv s)))))]"
  by (simp add: numeral_3_eq_3 split: prod.splits)

section \<open>The connection builder\<close>

text \<open>
  C6. For a client with a non-empty base endpoint and model identifier and no handle yet,
  any number of consecutive requests for the transport all return one and the same handle,
  whose API root is the base endpoint followed by "/v1" once; the handle is built by the
  first request only (one allocation). A client that holds a handle gets that handle back,
  with nothing built and no field looked at.
\<close>

theorem transport_root_built_once:
  "(oa c = None \<and> BaseURL c \<noteq> [] \<and> Model c \<noteq> [] \<longrightarrow>
      requests (Suc n) c w =
        (replicate (Suc n)
           (Some \<lparr>client_id = allocs w,
                   config = \<lparr>authToken = APIKey c, cfg_BaseURL = BaseURL c @ ''/v1''\<rparr>\<rparr>, None),
         c\<lparr>oa := Some \<lparr>client_id = allocs w,
                   config = \<lparr>authToken = APIKey c, cfg_BaseURL = BaseURL c @ ''/v1''\<rparr>\<rparr>\<rparr>,
         w\<lparr>allocs := Suc (allocs w)\<rparr>))
   \<and> (oa c = Some h \<longrightarrow> newOpenAIClient c w = ((Some h, None), c, w))"
proof (intro conjI impI)
  assume a: "oa c = None \<and> BaseURL c \<noteq> [] \<and> Model c \<noteq> []"
  let ?h = "\<lparr>client_id = allocs w,
             config = \<lparr>authToken = APIKey c, cfg_BaseURL = BaseURL c @ ''/v1''\<rparr>\<rparr>"
  have first: "newOpenAIClient c w = ((Some ?h, None), c\<lparr>oa := Some ?h\<rparr>, w\<lparr>allocs := Suc (allocs w)\<rparr>)"
    using a by (simp add: newOpenAIClient_build)
  have rest: "requests n (c\<lparr>oa := Some ?h\<rparr>) (w\<lparr>allocs := Suc (allocs w)\<rparr>) =
                (replicate n (Some ?h, None), c\<lparr>oa := Some ?h\<rparr>, w\<lparr>allocs := Suc (allocs w)\<rparr>)"
    by (rule requests_cached) simp
  show "requests (Suc n) c w =
          (replicate (Suc n) (Some ?h, None), c\<lparr>oa := Some ?h\<rparr>, w\<lparr>allocs := Suc (allocs w)\<rparr>)"
    by (simp add: first rest)
next
  assume "oa c = Some h"
  then show "newOpenAIClient c w = ((Some h, None), c, w)"
    by (rule newOpenAIClient_cached)
qed

theorem transport_root_built_once_witness:
  "requests 3 \<lparr>BaseURL = ''http://localhost:8001'', Model = ''mistral'', APIKey = ''dummy'', oa = None\<rparr>
       \<lparr>allocs = 0, net = []\<rparr> =
     (replicate 3
        (Some \<lparr>client_id = 0,
                config = \<lparr>authToken = ''dummy'', cfg_BaseURL = ''http://localhost:8001/v1''\<rparr>\<rparr>, None),
      \<lparr>BaseURL = ''http://localhost:8001'', Model = ''mistral'', APIKey = ''dummy'',
        oa = Some \<lparr>client_id = 0,
                config = \<lparr>authToken = ''dummy'', cfg_BaseURL = ''http://localhost:8001/v1''\<rparr>\<rparr>\<rparr>,
      \<lparr>allocs = 1, net = []\<rparr>)
   \<and> newOpenAIClient
       \<lparr>BaseURL = '''', Model = '''', APIKey = ''k'',
         oa = Some \<lparr>client_id = 7, config = \<lparr>authToken = ''t'', cfg_BaseURL = ''http://srv/v1''\<rparr>\<rparr>\<rparr>
       \<lparr>allocs = 8, net = []\<rparr> =
     ((Some \<lparr>client_id = 7, config = \<lparr>authToken = ''t'', cfg_BaseURL = ''http://srv/v1''\<rparr>\<rparr>, None),
      \<lparr>BaseURL = '''', Model = '''', APIKey = ''k'',
         oa = Some \<lparr>client_id = 7, config = \<lparr>authToken = ''t'', cfg_BaseURL = ''http://srv/v1''\<rparr>\<rparr>\<rparr>,
      \<lparr>allocs = 8, net = []\<rparr>)"
  using transport_root_built_once
    [where c = "\<lparr>BaseURL = ''http://localhost:8001'', Model = ''mistral'', APIKey = ''dummy'', oa = None\<rparr>"
       and n = 2 and w = "\<lparr>allocs = 0, net = []\<rparr>"]
    transport_root_built_once
    [where c = "\<lparr>BaseURL = '''', Model = '''', APIKey = ''k'',
         oa = Some \<lparr>client_id = 7, config = \<lparr>authToken = ''t'', cfg_BaseURL = ''http://srv/v1''\<rparr>\<rparr>\<rparr>"
       and h = "\<lparr>client_id = 7, config = \<lparr>authToken = ''t'', cfg_BaseURL = ''http://srv/v1''\<rparr>\<rparr>"
       and w = "\<lparr>allocs = 8, net = []\<rparr>"]
  by (simp add: numeral_3_eq_3)

text \<open>
  C7. When no handle has been built and the base endpoint or the model identifier is
  empty, \<open>Chat\<close> and \<open>ChatStream\<close> return a configuration error and leave the world as it
  was: no call reaches the transport and no handle is built.
\<close>

theorem config_error_before_io:
  assumes "oa c = None" and "BaseURL c = [] \<or> Model c = []"
  shows "\<exists>e. config_error e
           \<and> Chat srv c req w = ((None, Some e), c, w)
           \<and> ChatStream open_stream c req w = ((None, Some e), c, w)"
proof -
  let ?e = "Errorf (if BaseURL c = [] then ''vllm.Client.BaseURL is empty''
                    else ''vllm.Client.Model is empty'')"
  have n: "newOpenAIClient c w = ((None, Some ?e), c, w)"
    using assms by (rule newOpenAIClient_invalid)
  have "config_error ?e" by (simp add: config_error_def)
  moreover have "Chat srv c req w = ((None, Some ?e), c, w)"
    by (simp add: Chat_def n)
  moreover have "ChatStream open_stream c req w = ((None, Some ?e), c, w)"
    by (simp add: ChatStream_def n)
  ultimately show ?thesis by blast
qed

theorem config_error_before_io_witness:
  "\<exists>e. config_error e
     \<and> Chat (\<lambda>h r. Inr \<lparr>Choices = []\<rparr>)
          \<lparr>BaseURL = ''http://localhost:8001'', Model = '''', APIKey = ''dummy'', oa = None\<rparr>
          \<lparr>Messages = [\<lparr>Role = ''user'', Content = ''hi''\<rparr>]\<rparr> \<lparr>allocs = 0, net = []\<rparr> =
        ((None, Some e),
         \<lparr>BaseURL = ''http://localhost:8001'', Model = '''', APIKey = ''dummy'', oa = None\<rparr>,
         \<lparr>allocs = 0, net = []\<rparr>)
     \<and> ChatStream (\<lambda>h r. Inr [])
          \<lparr>BaseURL = ''http://localhost:8001'', Model = '''', APIKey = ''dummy'', oa = None\<rparr>
          \<lparr>Messages = [\<lparr>Role = ''user'', Content = ''hi''\<rparr>]\<rparr> \<lparr>allocs = 0, net = []\<rparr> =
        ((None, Some e),
         \<lparr>BaseURL = ''http://localhost:8001'', Model = '''', APIKey = ''dummy'', oa = None\<rparr>,
         \<lparr>allocs = 0, net = []\<rparr>)"
  using config_error_before_io
    [of "\<lparr>BaseURL = ''http://localhost:8001'', Model = '''', APIKey = ''dummy'', oa = None\<rparr>"
        "\<lambda>h r. Inr \<lparr>Choices = []\<rparr>" "\<lparr>Messages = [\<lparr>Role = ''user'', Content = ''hi''\<rparr>]\<rparr>"
        "\<lparr>allocs = 0, net = []\<rparr>" "\<lambda>h r. Inr []"]
  by simp

section \<open>Synchronous chat\<close>

text \<open>
  C4. When the connection builder gives a handle and the transport answers the call with a
  response of at least one choice, \<open>Chat\<close> returns the role and content of the first
  choice and no error; any other answer with the same first choice gives the same result,
  client and world, so the later choices are not observable.
\<close>

theorem Chat_first_choice:
  assumes "fst (newOpenAIClient c w) = (h, None)"
    and "srv h \<lparr>req_Model = Model c, req_Messages = wire_messages (Messages req) [],
                 req_Stream = False\<rparr> = Inr resp"
    and "Choices resp = ch # others"
  shows "fst (Chat srv c req w) =
           (Some \<lparr>Message = \<lparr>Role = msg_Role (choice_Message ch),
                              Content = msg_Content (choice_Message ch)\<rparr>\<rparr>, None)
       \<and> (\<forall>srv' resp' others'.
             srv' h \<lparr>req_Model = Model c, req_Messages = wire_messages (Messages req) [],
                      req_Stream = False\<rparr> = Inr resp' \<and> Choices resp' = ch # others'
             \<longrightarrow> Chat srv' c req w = Chat srv c req w)"
  using assms by (simp add: Chat_after_build)

theorem Chat_first_choice_witness:
  "fst (Chat
     (\<lambda>h r. Inr \<lparr>Choices =
        [\<lparr>choice_Message = \<lparr>msg_Role = ''assistant'', msg_Content = ''hello from vllm''\<rparr>\<rparr>,
         \<lparr>choice_Message = \<lparr>msg_Role = ''system'', msg_Content = ''second''\<rparr>\<rparr>]\<rparr>)
     \<lparr>BaseURL = ''http://127.0.0.1:8001'', Model = ''test-model'', APIKey = ''test-key'', oa = None\<rparr>
     \<lparr>Messages = [\<lparr>Role = ''user'', Content = ''hi''\<rparr>]\<rparr>
     \<lparr>allocs = 0, net = []\<rparr>) =
   (Some \<lparr>Message = \<lparr>Role = ''assistant'', Content = ''hello from vllm''\<rparr>\<rparr>, None)"
proof -
  have b: "fst (newOpenAIClient
              \<lparr>BaseURL = ''http://127.0.0.1:8001'', Model = ''test-model'',
                 APIKey = ''test-key'', oa = None\<rparr> \<lparr>allocs = 0, net = []\<rparr>) =
           (Some \<lparr>client_id = 0, config = \<lparr>authToken = ''test-key'',
                  cfg_BaseURL = ''http://127.0.0.1:8001/v1''\<rparr>\<rparr>, None)"
    by (simp add: newOpenAIClient_def DefaultConfig_def NewClientWithConfig_def Let_def)
  have r: "(\<lambda>h r. Inr \<lparr>Choices =
        [\<lparr>choice_Message = \<lparr>msg_Role = ''assistant'', msg_Content = ''hello from vllm''\<rparr>\<rparr>,
         \<lparr>choice_Message = \<lparr>msg_Role = ''system'', msg_Content = ''second''\<rparr>\<rparr>]\<rparr>)
      (Some \<lparr>client_id = 0, config = \<lparr>authToken = ''test-key'',
                  cfg_BaseURL = ''http://127.0.0.1:8001/v1''\<rparr>\<rparr>)
      \<lparr>req_Model = Model \<lparr>BaseURL = ''http://127.0.0.1:8001'', Model = ''test-model'',
                 APIKey = ''test-key'', oa = None\<rparr>,
        req_Messages = wire_messages (Messages \<lparr>Messages = [\<lparr>Role = ''user'', Content = ''hi''\<rparr>]\<rparr>) [],
        req_Stream = False\<rparr> =
      Inr \<lparr>Choices =
        [\<lparr>choice_Message = \<lparr>msg_Role = ''assistant'', msg_Content = ''hello from vllm''\<rparr>\<rparr>,
         \<lparr>choice_Message = \<lparr>msg_Role = ''system'', msg_Content = ''second''\<rparr>\<rparr>]\<rparr>"
    by simp
  have ch: "Choices \<lparr>Choices =
        [\<lparr>choice_Message = \<lparr>msg_Role = ''assistant'', msg_Content = ''hello from vllm''\<rparr>\<rparr>,
         \<lparr>choice_Message = \<lparr>msg_Role = ''system'', msg_Content = ''second''\<rparr>\<rparr>]\<rparr> =
       \<lparr>choice_Message = \<lparr>msg_Role = ''assistant'', msg_Content = ''hello from vllm''\<rparr>\<rparr>
       # [\<lparr>choice_Message = \<lparr>msg_Role = ''system'', msg_Content = ''second''\<rparr>\<rparr>]"
    by simp
  from Chat_first_choice [OF b r ch, THEN conjunct1] show ?thesis
    by simp
qed

text \<open>
  C5. When the transport answers with a response of zero choices, \<open>Chat\<close> returns no
  response and the no-choices error. When the transport fails with a cause \<open>e\<close> instead,
  \<open>Chat\<close> returns the chat-call error that wraps \<open>e\<close>; the two errors differ as values and
  in their text, and only the chat-call error unwraps to a cause.
\<close>

theorem Chat_no_choices:
  assumes "fst (newOpenAIClient c w) = (h, None)"
    and "srv h \<lparr>req_Model = Model c, req_Messages = wire_messages (Messages req) [],
                 req_Stream = False\<rparr> = Inr resp"
    and "Choices resp = []"
  shows "fst (Chat srv c req w) = (None, Some (Errorf ''vllm: no choices in response''))
       \<and> (\<forall>srv' e.
             srv' h \<lparr>req_Model = Model c, req_Messages = wire_messages (Messages req) [],
                      req_Stream = False\<rparr> = Inl e
             \<longrightarrow> fst (Chat srv' c req w) = (None, Some (Errorf_w ''vllm chat error: '' e))
                 \<and> fst (Chat srv' c req w) \<noteq> fst (Chat srv c req w)
                 \<and> Error (Errorf_w ''vllm chat error: '' e)
                     \<noteq> Error (Errorf ''vllm: no choices in response'')
                 \<and> Unwrap (Errorf_w ''vllm chat error: '' e) = Some e
                 \<and> Unwrap (Errorf ''vllm: no choices in response'') = None)"
  using assms by (simp add: Chat_after_build)

theorem Chat_no_choices_witness:
  "fst (Chat (\<lambda>h r. Inr \<lparr>Choices = []\<rparr>)
     \<lparr>BaseURL = ''http://127.0.0.1:8001'', Model = ''test-model'', APIKey = ''test-key'', oa = None\<rparr>
     \<lparr>Messages = [\<lparr>Role = ''user'', Content = ''hi''\<rparr>]\<rparr>
     \<lparr>allocs = 0, net = []\<rparr>) =
   (None, Some (Errorf ''vllm: no choices in response''))
   \<and> fst (Chat (\<lambda>h r. Inl (External ''connection refused''))
     \<lparr>BaseURL = ''http://127.0.0.1:8001'', Model = ''test-model'', APIKey = ''test-key'', oa = None\<rparr>
     \<lparr>Messages = [\<lparr>Role = ''user'', Content = ''hi''\<rparr>]\<rparr>
     \<lparr>allocs = 0, net = []\<rparr>) =
   (None, Some (Errorf_w ''vllm chat error: '' (External ''connection refused'')))"
proof -
  have t: "\<forall>srv' e.
       srv' (Some \<lparr>client_id = 0, config = \<lparr>authToken = ''test-key'',
                  cfg_BaseURL = ''http://127.0.0.1:8001/v1''\<rparr>\<rparr>)
          \<lparr>req_Model = ''test-model'',
            req_Messages = [\<lparr>msg_Role = ''user'', msg_Content = ''hi''\<rparr>], req_Stream = False\<rparr> = Inl e
       \<longrightarrow> fst (Chat srv'
              \<lparr>BaseURL = ''http://127.0.0.1:8001'', Model = ''test-model'',
                 APIKey = ''test-key'', oa = None\<rparr>
              \<lparr>Messages = [\<lparr>Role = ''user'', Content = ''hi''\<rparr>]\<rparr>
              \<lparr>allocs = 0, net = []\<rparr>) = (None, Some (Errorf_w ''vllm chat error: '' e))"
    and f: "fst (Chat (\<lambda>h r. Inr \<lparr>Choices = []\<rparr>)
     \<lparr>BaseURL = ''http://127.0.0.1:8001'', Model = ''test-model'', APIKey = ''test-key'', oa = None\<rparr>
     \<lparr>Messages = [\<lparr>Role = ''user'', Content = ''hi''\<rparr>]\<rparr>
     \<lparr>allocs = 0, net = []\<rparr>) =
   (None, Some (Errorf ''vllm: no choices in response''))"
    using Chat_no_choices
    [where c = "\<lparr>BaseURL = ''http://127.0.0.1:8001'', Model = ''test-model'',
                  APIKey = ''test-key'', oa = None\<rparr>"
       and w = "\<lparr>allocs = 0, net = []\<rparr>"
       and h = "Some \<lparr>client_id = 0, config = \<lparr>authToken = ''test-key'',
                  cfg_BaseURL = ''http://127.0.0.1:8001/v1''\<rparr>\<rparr>"
       and srv = "\<lambda>h r. Inr \<lparr>Choices = []\<rparr>"
       and req = "\<lparr>Messages = [\<lparr>Role = ''user'', Content = ''hi''\<rparr>]\<rparr>"
       and resp = "\<lparr>Choices = []\<rparr>"]
    by (simp_all add: newOpenAIClient_def DefaultConfig_def NewClientWithConfig_def Let_def)
  from t have "fst (Chat (\<lambda>h r. Inl (External ''connection refused''))
     \<lparr>BaseURL = ''http://127.0.0.1:8001'', Model = ''test-model'', APIKey = ''test-key'', oa = None\<rparr>
     \<lparr>Messages = [\<lparr>Role = ''user'', Content = ''hi''\<rparr>]\<rparr>
     \<lparr>allocs = 0, net = []\<rparr>) =
   (None, Some (Errorf_w ''vllm chat error: '' (External ''connection refused'')))"
    by simp
  with f show ?thesis by simp
qed

text \<open>
  C9. For every request, empty or not, and every client, each call that \<open>Chat\<close> or
  \<open>ChatStream\<close> issues to the transport carries the request's messages one for one and in
  order: same length, and at every position the role's text and the content of the source
  message. When the connection builder gives a handle, each of the two issues exactly one
  such call.
\<close>

theorem wire_messages_preserved:
  "(\<forall>call \<in> set (drop (length (net w)) (net (snd (snd (Chat srv c req w)))))
            \<union> set (drop (length (net w)) (net (snd (snd (ChatStream open_stream c req w))))).
       req_Messages (wire call) =
         map (\<lambda>m. \<lparr>msg_Role = Role m, msg_Content = Content m\<rparr>) (Messages req)
     \<and> length (req_Messages (wire call)) = length (Messages req)
     \<and> (\<forall>i < length (Messages req).
           msg_Role (req_Messages (wire call) ! i) = Role (Messages req ! i)
         \<and> msg_Content (req_Messages (wire call) ! i) = Content (Messages req ! i)))
   \<and> (fst (newOpenAIClient c w) = (h, None) \<longrightarrow>
        net (snd (snd (Chat srv c req w))) =
           net w @ [\<lparr>via = h, wire = \<lparr>req_Model = Model c,
              req_Messages = map (\<lambda>m. \<lparr>msg_Role = Role m, msg_Content = Content m\<rparr>) (Messages req),
              req_Stream = False\<rparr>\<rparr>]
      \<and> net (snd (snd (ChatStream open_stream c req w))) =
           net w @ [\<lparr>via = h, wire = \<lparr>req_Model = Model c,
              req_Messages = map (\<lambda>m. \<lparr>msg_Role = Role m, msg_Content = Content m\<rparr>) (Messages req),
              req_Stream = True\<rparr>\<rparr>])"
proof (intro conjI impI ballI)
  fix call
  assume "call \<in> set (drop (length (net w)) (net (snd (snd (Chat srv c req w)))))
            \<union> set (drop (length (net w)) (net (snd (snd (ChatStream open_stream c req w)))))"
  then have m: "req_Messages (wire call) =
         map (\<lambda>m. \<lparr>msg_Role = Role m, msg_Content = Content m\<rparr>) (Messages req)"
    by (auto simp add: Chat_new_calls ChatStream_new_calls split: if_splits)
  show "req_Messages (wire call) =
         map (\<lambda>m. \<lparr>msg_Role = Role m, msg_Content = Content m\<rparr>) (Messages req)"
    by (rule m)
  show "length (req_Messages (wire call)) = length (Messages req)"
    by (simp add: m)
  show "\<forall>i < length (Messages req).
           msg_Role (req_Messages (wire call) ! i) = Role (Messages req ! i)
         \<and> msg_Content (req_Messages (wire call) ! i) = Content (Messages req ! i)"
    by (simp add: m)
next
  assume a: "fst (newOpenAIClient c w) = (h, None)"
  show "net (snd (snd (Chat srv c req w))) =
           net w @ [\<lparr>via = h, wire = \<lparr>req_Model = Model c,
              req_Messages = map (\<lambda>m. \<lparr>msg_Role = Role m, msg_Content = Content m\<rparr>) (Messages req),
              req_Stream = False\<rparr>\<rparr>]"
    using a by (simp add: Chat_after_build wire_messages_map)
  show "net (snd (snd (ChatStream open_stream c req w))) =
           net w @ [\<lparr>via = h, wire = \<lparr>req_Model = Model c,
              req_Messages = map (\<lambda>m. \<lparr>msg_Role = Role m, msg_Content = Content m\<rparr>) (Messages req),
              req_Stream = True\<rparr>\<rparr>]"
    using a by (simp add: ChatStream_after_build wire_messages_map)
qed

theorem wire_messages_preserved_witness:
  "net (snd (snd (Chat (\<lambda>h r. Inr \<lparr>Choices = []\<rparr>)
     \<lparr>BaseURL = ''http://127.0.0.1:8001'', Model = ''test-model'', APIKey = ''test-key'', oa = None\<rparr>
     \<lparr>Messages = [\<lparr>Role = ''system'', Content = ''be brief''\<rparr>, \<lparr>Role = ''user'', Content = ''hi''\<rparr>]\<rparr>
     \<lparr>allocs = 0, net = []\<rparr>))) =
   [\<lparr>via = Some \<lparr>client_id = 0, config = \<lparr>authToken = ''test-key'',
                  cfg_BaseURL = ''http://127.0.0.1:8001/v1''\<rparr>\<rparr>,
     wire = \<lparr>req_Model = ''test-model'',
              req_Messages = [\<lparr>msg_Role = ''system'', msg_Content = ''be brief''\<rparr>,
                              \<lparr>msg_Role = ''user'', msg_Content = ''hi''\<rparr>],
              req_Stream = False\<rparr>\<rparr>]
   \<and> net (snd (snd (ChatStream (\<lambda>h r. Inr [])
     \<lparr>BaseURL = ''http://127.0.0.1:8001'', Model = ''test-model'', APIKey = ''test-key'', oa = None\<rparr>
     \<lparr>Messages = [\<lparr>Role = ''system'', Content = ''be brief''\<rparr>, \<lparr>Role = ''user'', Content = ''hi''\<rparr>]\<rparr>
     \<lparr>allocs = 0, net = []\<rparr>))) =
   [\<lparr>via = Some \<lparr>client_id = 0, config = \<lparr>authToken = ''test-key'',
                  cfg_BaseURL = ''http://127.0.0.1:8001/v1''\<rparr>\<rparr>,
     wire = \<lparr>req_Model = ''test-model'',
              req_Messages = [\<lparr>msg_Role = ''system'', msg_Content = ''be brief''\<rparr>,
                              \<lparr>msg_Role = ''user'', msg_Content = ''hi''\<rparr>],
              req_Stream = True\<rparr>\<rparr>]
   \<and> length (req_Messages (wire
     \<lparr>via = Some \<lparr>client_id = 0, config = \<lparr>authToken = ''test-key'',
                  cfg_BaseURL = ''http://127.0.0.1:8001/v1''\<rparr>\<rparr>,
     wire = \<lparr>req_Model = ''test-model'',
              req_Messages = [\<lparr>msg_Role = ''system'', msg_Content = ''be brief''\<rparr>,
                              \<lparr>msg_Role = ''user'', msg_Content = ''hi''\<rparr>],
              req_Stream = False\<rparr>\<rparr>)) =
     length (Messages \<lparr>Messages = [\<lparr>Role = ''system'', Content = ''be brief''\<rparr>,
                                    \<lparr>Role = ''user'', Content = ''hi''\<rparr>]\<rparr>)"
proof -
  have b: "fst (newOpenAIClient
              \<lparr>BaseURL = ''http://127.0.0.1:8001'', Model = ''test-model'',
                 APIKey = ''test-key'', oa = None\<rparr> \<lparr>allocs = 0, net = []\<rparr>) =
           (Some \<lparr>client_id = 0, config = \<lparr>authToken = ''test-key'',
                  cfg_BaseURL = ''http://127.0.0.1:8001/v1''\<rparr>\<rparr>, None)"
    by (simp add: newOpenAIClient_def DefaultConfig_def NewClientWithConfig_def Let_def)
  note t = wire_messages_preserved
    [where c = "\<lparr>BaseURL = ''http://127.0.0.1:8001'', Model = ''test-model'',
                 APIKey = ''test-key'', oa = None\<rparr>"
       and w = "\<lparr>allocs = 0, net = []\<rparr>"
       and h = "Some \<lparr>client_id = 0, config = \<lparr>authToken = ''test-key'',
                  cfg_BaseURL = ''http://127.0.0.1:8001/v1''\<rparr>\<rparr>"
       and srv = "\<lambda>h r. Inr \<lparr>Choices = []\<rparr>" and open_stream = "\<lambda>h r. Inr []"
       and req = "\<lparr>Messages = [\<lparr>Role = ''system'', Content = ''be brief''\<rparr>,
                                \<lparr>Role = ''user'', Content = ''hi''\<rparr>]\<rparr>"]
  have n: "net (snd (snd (Chat (\<lambda>h r. Inr \<lparr>Choices = []\<rparr>)
     \<lparr>BaseURL = ''http://127.0.0.1:8001'', Model = ''test-model'', APIKey = ''test-key'', oa = None\<rparr>
     \<lparr>Messages = [\<lparr>Role = ''system'', Content = ''be brief''\<rparr>, \<lparr>Role = ''user'', Content = ''hi''\<rparr>]\<rparr>
     \<lparr>allocs = 0, net = []\<rparr>))) =
   [\<lparr>via = Some \<lparr>client_id = 0, config = \<lparr>authToken = ''test-key'',
                  cfg_BaseURL = ''http://127.0.0.1:8001/v1''\<rparr>\<rparr>,
     wire = \<lparr>req_Model = ''test-model'',
              req_Messages = [\<lparr>msg_Role = ''system'', msg_Content = ''be brief''\<rparr>,
                              \<lparr>msg_Role = ''user'', msg_Content = ''hi''\<rparr>],
              req_Stream = False\<rparr>\<rparr>]"
    and ns: "net (snd (snd (ChatStream (\<lambda>h r. Inr [])
     \<lparr>BaseURL = ''http://127.0.0.1:8001'', Model = ''test-model'', APIKey = ''test-key'', oa = None\<rparr>
     \<lparr>Messages = [\<lparr>Role = ''system'', Content = ''be brief''\<rparr>, \<lparr>Role = ''user'', Content = ''hi''\<rparr>]\<rparr>
     \<lparr>allocs = 0, net = []\<rparr>))) =
   [\<lparr>via = Some \<lparr>client_id = 0, config = \<lparr>authToken = ''test-key'',
                  cfg_BaseURL = ''http://127.0.0.1:8001/v1''\<rparr>\<rparr>,
     wire = \<lparr>req_Model = ''test-model'',
              req_Messages = [\<lparr>msg_Role = ''system'', msg_Content = ''be brief''\<rparr>,
                              \<lparr>msg_Role = ''user'', msg_Content = ''hi''\<rparr>],
              req_Stream = True\<rparr>\<rparr>]"
    using t [THEN conjunct2] b by simp_all
  have m: "\<lparr>via = Some \<lparr>client_id = 0, config = \<lparr>authToken = ''test-key'',
                  cfg_BaseURL = ''http://127.0.0.1:8001/v1''\<rparr>\<rparr>,
     wire = \<lparr>req_Model = ''test-model'',
              req_Messages = [\<lparr>msg_Role = ''system'', msg_Content = ''be brief''\<rparr>,
                              \<lparr>msg_Role = ''user'', msg_Content = ''hi''\<rparr>],
              req_Stream = False\<rparr>\<rparr>
      \<in> set (drop (length (net \<lparr>allocs = 0, net = []\<rparr>)) (net (snd (snd (Chat (\<lambda>h r. Inr \<lparr>Choices = []\<rparr>)
     \<lparr>BaseURL = ''http://127.0.0.1:8001'', Model = ''test-model'', APIKey = ''test-key'', oa = None\<rparr>
     \<lparr>Messages = [\<lparr>Role = ''system'', Content = ''be brief''\<rparr>, \<lparr>Role = ''user'', Content = ''hi''\<rparr>]\<rparr>
     \<lparr>allocs = 0, net = []\<rparr>)))))
        \<union> set (drop (length (net \<lparr>allocs = 0, net = []\<rparr>)) (net (snd (snd (ChatStream (\<lambda>h r. Inr [])
     \<lparr>BaseURL = ''http://127.0.0.1:8001'', Model = ''test-model'', APIKey = ''test-key'', oa = None\<rparr>
     \<lparr>Messages = [\<lparr>Role = ''system'', Content = ''be brief''\<rparr>, \<lparr>Role = ''user'', Content = ''hi''\<rparr>]\<rparr>
     \<lparr>allocs = 0, net = []\<rparr>)))))"
    by (simp add: n)
  note l = t [THEN conjunct1, THEN bspec, OF m, THEN conjunct2, THEN conjunct1]
  from n ns l show ?thesis
    by (simp only: simp_thms)
qed

section \<open>Streaming chat\<close>

text \<open>
  C8. When the transport fails to open the stream with a cause \<open>e\<close>, \<open>ChatStream\<close> returns
  no cursor and the stream-open error that wraps \<open>e\<close>. On every call the cursor is nil
  exactly when the error is non-nil.
\<close>

theorem ChatStream_open_error:
  "(fst (newOpenAIClient c w) = (h, None)
      \<and> open_stream h \<lparr>req_Model = Model c, req_Messages = wire_messages (Messages req) [],
                        req_Stream = True\<rparr> = Inl e
    \<longrightarrow> fst (ChatStream open_stream c req w) = (None, Some (Errorf_w ''vllm stream error: '' e))
        \<and> Unwrap (Errorf_w ''vllm stream error: '' e) = Some e)
   \<and> (fst (fst (ChatStream open_stream c req w)) = None
        \<longleftrightarrow> snd (fst (ChatStream open_stream c req w)) \<noteq> None)"
proof (intro conjI impI)
  assume a: "fst (newOpenAIClient c w) = (h, None)
      \<and> open_stream h \<lparr>req_Model = Model c, req_Messages = wire_messages (Messages req) [],
                        req_Stream = True\<rparr> = Inl e"
  then show "fst (ChatStream open_stream c req w) = (None, Some (Errorf_w ''vllm stream error: '' e))"
    by (simp add: ChatStream_after_build)
next
  show "Unwrap (Errorf_w ''vllm stream error: '' e) = Some e" by simp
next
  show "fst (fst (ChatStream open_stream c req w)) = None
        \<longleftrightarrow> snd (fst (ChatStream open_stream c req w)) \<noteq> None"
  proof (cases "snd (fst (newOpenAIClient c w))")
    case None
    then have "fst (newOpenAIClient c w) = (fst (fst (newOpenAIClient c w)), None)"
      by (metis prod.collapse)
    then show ?thesis
      by (simp add: ChatStream_after_build split: sum.splits)
  next
    case (Some err)
    then show ?thesis by (simp add: ChatStream_config_failure)
  qed
qed

theorem ChatStream_open_error_witness:
  "fst (ChatStream (\<lambda>h r. Inl (External ''status code: 500''))
     \<lparr>BaseURL = ''http://127.0.0.1:8001'', Model = ''test-model'', APIKey = ''test-key'', oa = None\<rparr>
     \<lparr>Messages = [\<lparr>Role = ''user'', Content = ''hi''\<rparr>]\<rparr>
     \<lparr>allocs = 0, net = []\<rparr>) =
   (None, Some (Errorf_w ''vllm stream error: '' (External ''status code: 500'')))"
  using ChatStream_open_error
    [where c = "\<lparr>BaseURL = ''http://127.0.0.1:8001'', Model = ''test-model'',
                  APIKey = ''test-key'', oa = None\<rparr>"
       and w = "\<lparr>allocs = 0, net = []\<rparr>"
       and h = "Some \<lparr>client_id = 0, config = \<lparr>authToken = ''test-key'',
                  cfg_BaseURL = ''http://127.0.0.1:8001/v1''\<rparr>\<rparr>"
       and open_stream = "\<lambda>h r. Inl (External ''status code: 500'')"
       and e = "External ''status code: 500''"
       and req = "\<lparr>Messages = [\<lparr>Role = ''user'', Content = ''hi''\<rparr>]\<rparr>"]
  by (simp add: newOpenAIClient_def DefaultConfig_def NewClientWithConfig_def Let_def)

section \<open>Pulling from the stream\<close>

text \<open>
  C1. When the cursor's next chunk has a first choice with non-empty delta content, one
  \<open>Recv\<close> returns one delta with role "assistant" and exactly that content, no error, and
  moves the cursor past that one chunk. On a stream of two chunks with contents "hello "
  and "world", three pulls give the two deltas and then the end-of-stream signal; the
  delta contents concatenate to "hello world".
\<close>

theorem Recv_delta:
  "(stream s = Inr chunk # rest \<and> stream_Choices chunk = ch # others
      \<and> delta_Content (Delta ch) \<noteq> []
    \<longrightarrow> Recv s =
          ((Some \<lparr>Message = \<lparr>Role = ''assistant'', Content = delta_Content (Delta ch)\<rparr>\<rparr>, None),
           s\<lparr>stream := rest\<rparr>))
   \<and> (stream_Choices c1 = ch1 # others1 \<and> delta_Content (Delta ch1) = ''hello ''
      \<and> stream_Choices c2 = ch2 # others2 \<and> delta_Content (Delta ch2) = ''world''
    \<longrightarrow> fst (pulls 3 \<lparr>stream = [Inr c1, Inr c2]\<rparr>) =
          [(Some \<lparr>Message = \<lparr>Role = ''assistant'', Content = ''hello ''\<rparr>\<rparr>, None),
           (Some \<lparr>Message = \<lparr>Role = ''assistant'', Content = ''world''\<rparr>\<rparr>, None),
           (None, Some EOF)]
        \<and> delta_contents (fst (pulls 3 \<lparr>stream = [Inr c1, Inr c2]\<rparr>)) = [''hello '', ''world'']
        \<and> concat (delta_contents (fst (pulls 3 \<lparr>stream = [Inr c1, Inr c2]\<rparr>))) = ''hello world'')"
proof (intro conjI impI)
  assume "stream s = Inr chunk # rest \<and> stream_Choices chunk = ch # others
      \<and> delta_Content (Delta ch) \<noteq> []"
  then show "Recv s =
          ((Some \<lparr>Message = \<lparr>Role = ''assistant'', Content = delta_Content (Delta ch)\<rparr>\<rparr>, None),
           s\<lparr>stream := rest\<rparr>)"
    by (simp add: Recv_chunk RoleAssistant_def)
next
  assume a: "stream_Choices c1 = ch1 # others1 \<and> delta_Content (Delta ch1) = ''hello ''
      \<and> stream_Choices c2 = ch2 # others2 \<and> delta_Content (Delta ch2) = ''world''"
  have r1: "Recv \<lparr>stream = [Inr c1, Inr c2]\<rparr> =
      ((Some \<lparr>Message = \<lparr>Role = ''assistant'', Content = ''hello ''\<rparr>\<rparr>, None),
       \<lparr>stream = [Inr c2]\<rparr>)"
    using a by (simp add: Recv_chunk RoleAssistant_def)
  have r2: "Recv \<lparr>stream = [Inr c2]\<rparr> =
      ((Some \<lparr>Message = \<lparr>Role = ''assistant'', Content = ''world''\<rparr>\<rparr>, None), \<lparr>stream = []\<rparr>)"
    using a by (simp add: Recv_chunk RoleAssistant_def)
  have r3: "fst (Recv \<lparr>stream = []\<rparr>) = (None, Some EOF)"
    by (simp add: Recv_def stream_Recv_def)
  show p: "fst (pulls 3 \<lparr>stream = [Inr c1, Inr c2]\<rparr>) =
          [(Some \<lparr>Message = \<lparr>Role = ''assistant'', Content = ''hello ''\<rparr>\<rparr>, None),
           (Some \<lparr>Message = \<lparr>Role = ''assistant'', Content = ''world''\<rparr>\<rparr>, None),
           (None, Some EOF)]"
    by (simp add: pulls_3 r1 r2 r3)
  show "delta_contents (fst (pulls 3 \<lparr>stream = [Inr c1, Inr c2]\<rparr>)) = [''hello '', ''world'']"
    by (simp add: p)
  show "concat (delta_contents (fst (pulls 3 \<lparr>stream = [Inr c1, Inr c2]\<rparr>))) = ''hello world''"
    by (simp add: p)
qed

theorem Recv_delta_witness:
  "Recv \<lparr>stream = [Inr \<lparr>stream_Choices = [\<lparr>Delta = \<lparr>delta_Content = ''hello ''\<rparr>\<rparr>]\<rparr>,
                     Inr \<lparr>stream_Choices = [\<lparr>Delta = \<lparr>delta_Content = ''world''\<rparr>\<rparr>]\<rparr>]\<rparr> =
     ((Some \<lparr>Message = \<lparr>Role = ''assistant'', Content = ''hello ''\<rparr>\<rparr>, None),
      \<lparr>stream = [Inr \<lparr>stream_Choices = [\<lparr>Delta = \<lparr>delta_Content = ''world''\<rparr>\<rparr>]\<rparr>]\<rparr>)
   \<and> fst (pulls 3
       \<lparr>stream = [Inr \<lparr>stream_Choices = [\<lparr>Delta = \<lparr>delta_Content = ''hello ''\<rparr>\<rparr>]\<rparr>,
                  Inr \<lparr>stream_Choices = [\<lparr>Delta = \<lparr>delta_Content = ''world''\<rparr>\<rparr>]\<rparr>]\<rparr>) =
     [(Some \<lparr>Message = \<lparr>Role = ''assistant'', Content = ''hello ''\<rparr>\<rparr>, None),
      (Some \<lparr>Message = \<lparr>Role = ''assistant'', Content = ''world''\<rparr>\<rparr>, None),
      (None, Some EOF)]
   \<and> concat (delta_contents (fst (pulls 3
       \<lparr>stream = [Inr \<lparr>stream_Choices = [\<lparr>Delta = \<lparr>delta_Content = ''hello ''\<rparr>\<rparr>]\<rparr>,
                  Inr \<lparr>stream_Choices = [\<lparr>Delta = \<lparr>delta_Content = ''world''\<rparr>\<rparr>]\<rparr>]\<rparr>))) =
     ''hello world''"
proof -
  note t = Recv_delta
    [where s = "\<lparr>stream = [Inr \<lparr>stream_Choices = [\<lparr>Delta = \<lparr>delta_Content = ''hello ''\<rparr>\<rparr>]\<rparr>,
                     Inr \<lparr>stream_Choices = [\<lparr>Delta = \<lparr>delta_Content = ''world''\<rparr>\<rparr>]\<rparr>]\<rparr>"
       and chunk = "\<lparr>stream_Choices = [\<lparr>Delta = \<lparr>delta_Content = ''hello ''\<rparr>\<rparr>]\<rparr>"
       and rest = "[Inr \<lparr>stream_Choices = [\<lparr>Delta = \<lparr>delta_Content = ''world''\<rparr>\<rparr>]\<rparr>]"
       and ch = "\<lparr>Delta = \<lparr>delta_Content = ''hello ''\<rparr>\<rparr>" and others = "[]"
       and ?c1.0 = "\<lparr>stream_Choices = [\<lparr>Delta = \<lparr>delta_Content = ''hello ''\<rparr>\<rparr>]\<rparr>"
       and ?ch1.0 = "\<lparr>Delta = \<lparr>delta_Content = ''hello ''\<rparr>\<rparr>" and ?others1.0 = "[]"
       and ?c2.0 = "\<lparr>stream_Choices = [\<lparr>Delta = \<lparr>delta_Content = ''world''\<rparr>\<rparr>]\<rparr>"
       and ?ch2.0 = "\<lparr>Delta = \<lparr>delta_Content = ''world''\<rparr>\<rparr>" and ?others2.0 = "[]"]
  from t [THEN conjunct1] t [THEN conjunct2] show ?thesis
    by simp
qed

text \<open>
  C2. When the cursor's next chunk has zero choices, or its first choice has empty delta
  content, \<open>Recv\<close> returns neither a delta nor an error and moves the cursor past that
  chunk: the next pull is a pull on the rest of the stream.
\<close>

theorem Recv_empty_chunk:
  assumes "stream s = Inr chunk # rest"
    and "stream_Choices chunk = []
         \<or> (stream_Choices chunk \<noteq> [] \<and> delta_Content (Delta (stream_Choices chunk ! 0)) = [])"
  shows "Recv s = ((None, None), s\<lparr>stream := rest\<rparr>)
       \<and> fst (pulls 2 s) = [(None, None), fst (Recv (s\<lparr>stream := rest\<rparr>))]"
proof -
  have r: "Recv s = ((None, None), s\<lparr>stream := rest\<rparr>)"
    using assms by (auto simp add: Recv_chunk hd_conv_nth)
  then show ?thesis by (simp add: pulls_2)
qed

theorem Recv_empty_chunk_witness:
  "Recv \<lparr>stream = [Inr \<lparr>stream_Choices = []\<rparr>,
                     Inr \<lparr>stream_Choices = [\<lparr>Delta = \<lparr>delta_Content = ''world''\<rparr>\<rparr>]\<rparr>]\<rparr> =
     ((None, None),
      \<lparr>stream = [Inr \<lparr>stream_Choices = [\<lparr>Delta = \<lparr>delta_Content = ''world''\<rparr>\<rparr>]\<rparr>]\<rparr>)
   \<and> Recv \<lparr>stream = [Inr \<lparr>stream_Choices = [\<lparr>Delta = \<lparr>delta_Content = []\<rparr>\<rparr>]\<rparr>,
                     Inr \<lparr>stream_Choices = [\<lparr>Delta = \<lparr>delta_Content = ''world''\<rparr>\<rparr>]\<rparr>]\<rparr> =
     ((None, None),
      \<lparr>stream = [Inr \<lparr>stream_Choices = [\<lparr>Delta = \<lparr>delta_Content = ''world''\<rparr>\<rparr>]\<rparr>]\<rparr>)
   \<and> fst (pulls 2
       \<lparr>stream = [Inr \<lparr>stream_Choices = [\<lparr>Delta = \<lparr>delta_Content = []\<rparr>\<rparr>]\<rparr>,
                  Inr \<lparr>stream_Choices = [\<lparr>Delta = \<lparr>delta_Content = ''world''\<rparr>\<rparr>]\<rparr>]\<rparr>) =
     [(None, None), (Some \<lparr>Message = \<lparr>Role = ''assistant'', Content = ''world''\<rparr>\<rparr>, None)]"
proof -
  note a = Recv_empty_chunk
    [where s = "\<lparr>stream = [Inr \<lparr>stream_Choices = []\<rparr>,
                     Inr \<lparr>stream_Choices = [\<lparr>Delta = \<lparr>delta_Content = ''world''\<rparr>\<rparr>]\<rparr>]\<rparr>"
       and chunk = "\<lparr>stream_Choices = []\<rparr>"
       and rest = "[Inr \<lparr>stream_Choices = [\<lparr>Delta = \<lparr>delta_Content = ''world''\<rparr>\<rparr>]\<rparr>]"]
  note b = Recv_empty_chunk
    [where s = "\<lparr>stream = [Inr \<lparr>stream_Choices = [\<lparr>Delta = \<lparr>delta_Content = []\<rparr>\<rparr>]\<rparr>,
                     Inr \<lparr>stream_Choices = [\<lparr>Delta = \<lparr>delta_Content = ''world''\<rparr>\<rparr>]\<rparr>]\<rparr>"
       and chunk = "\<lparr>stream_Choices = [\<lparr>Delta = \<lparr>delta_Content = []\<rparr>\<rparr>]\<rparr>"
       and rest = "[Inr \<lparr>stream_Choices = [\<lparr>Delta = \<lparr>delta_Content = ''world''\<rparr>\<rparr>]\<rparr>]"]
  have r: "fst (Recv \<lparr>stream = [Inr \<lparr>stream_Choices = [\<lparr>Delta = \<lparr>delta_Content = ''world''\<rparr>\<rparr>]\<rparr>]\<rparr>) =
      (Some \<lparr>Message = \<lparr>Role = ''assistant'', Content = ''world''\<rparr>\<rparr>, None)"
    by (simp add: Recv_def stream_Recv_def RoleAssistant_def)
  from a b r show ?thesis by simp
qed

text \<open>
  C3. When the cursor reports \<open>io.EOF\<close>, \<open>Recv\<close> returns the end-of-stream signal, which is
  the DONE outcome and not the ERROR outcome. When the cursor reports any other error,
  \<open>Recv\<close> returns that very error, which is the ERROR outcome and not DONE. The
  end-of-stream signal is returned only when the cursor reported it. An error in the
  middle of a stream comes out of the pull that reaches it.
\<close>

theorem Recv_eof_and_error:
  "(fst (stream_Recv (stream s)) = Inl EOF
        \<longrightarrow> fst (Recv s) = (None, Some EOF)
            \<and> is_DONE (fst (Recv s)) \<and> \<not> is_ERROR (fst (Recv s)))
   \<and> (fst (stream_Recv (stream s)) = Inl e \<and> e \<noteq> EOF
        \<longrightarrow> fst (Recv s) = (None, Some e)
            \<and> is_ERROR (fst (Recv s)) \<and> \<not> is_DONE (fst (Recv s)))
   \<and> (snd (fst (Recv s)) = Some EOF \<longleftrightarrow> fst (stream_Recv (stream s)) = Inl EOF)
   \<and> (stream s = before @ Inl e # rest \<and> e \<noteq> EOF
        \<longrightarrow> last (fst (pulls (Suc (length before)) s)) = (None, Some e))"
proof (intro conjI impI)
  assume "fst (stream_Recv (stream s)) = Inl EOF"
  then show r: "fst (Recv s) = (None, Some EOF)" by (rule Recv_error)
  show "is_DONE (fst (Recv s))" by (simp add: r is_DONE_def)
  show "\<not> is_ERROR (fst (Recv s))" by (simp add: r is_ERROR_def)
next
  assume a: "fst (stream_Recv (stream s)) = Inl e \<and> e \<noteq> EOF"
  then show r: "fst (Recv s) = (None, Some e)" by (simp add: Recv_error)
  show "is_ERROR (fst (Recv s))" using a by (simp add: r is_ERROR_def)
  show "\<not> is_DONE (fst (Recv s))" using a by (simp add: r is_DONE_def)
next
  show "snd (fst (Recv s)) = Some EOF \<longleftrightarrow> fst (stream_Recv (stream s)) = Inl EOF"
    using Recv_error [of s EOF] Recv_error_only [of s EOF] by auto
next
  assume a: "stream s = before @ Inl e # rest \<and> e \<noteq> EOF"
  have "snd (pulls (length before) s) = s\<lparr>stream := Inl e # rest\<rparr>"
    using a by (simp add: pulls_advances)
  then have "fst (Recv (snd (pulls (length before) s))) = (None, Some e)"
    by (simp add: Recv_error stream_Recv_def)
  then show "last (fst (pulls (Suc (length before)) s)) = (None, Some e)"
    by (simp only: pulls_snoc last_snoc)
qed

theorem Recv_eof_and_error_witness:
  "fst (Recv \<lparr>stream = []\<rparr>) = (None, Some EOF)
   \<and> fst (Recv \<lparr>stream = [Inl EOF, Inr \<lparr>stream_Choices = []\<rparr>]\<rparr>) = (None, Some EOF)
   \<and> fst (Recv \<lparr>stream = [Inl (External ''unexpected EOF'')]\<rparr>) =
       (None, Some (External ''unexpected EOF''))
   \<and> last (fst (pulls 2
        \<lparr>stream = [Inr \<lparr>stream_Choices = [\<lparr>Delta = \<lparr>delta_Content = ''hello ''\<rparr>\<rparr>]\<rparr>,
                   Inl (External ''unexpected EOF'')]\<rparr>)) =
       (None, Some (External ''unexpected EOF''))"
proof -
  note a = Recv_eof_and_error [where s = "\<lparr>stream = []\<rparr>", THEN conjunct1]
  note b = Recv_eof_and_error
    [where s = "\<lparr>stream = [Inl EOF, Inr \<lparr>stream_Choices = []\<rparr>]\<rparr>", THEN conjunct1]
  note c = Recv_eof_and_error
    [where s = "\<lparr>stream = [Inl (External ''unexpected EOF'')]\<rparr>"
       and e = "External ''unexpected EOF''", THEN conjunct2, THEN conjunct1]
  note d = Recv_eof_and_error
    [where s = "\<lparr>stream = [Inr \<lparr>stream_Choices = [\<lparr>Delta = \<lparr>delta_Content = ''hello ''\<rparr>\<rparr>]\<rparr>,
                   Inl (External ''unexpected EOF'')]\<rparr>"
       and e = "External ''unexpected EOF''"
       and before = "[Inr \<lparr>stream_Choices = [\<lparr>Delta = \<lparr>delta_Content = ''hello ''\<rparr>\<rparr>]\<rparr>]"
       and rest = "[]",
     THEN conjunct2, THEN conjunct2, THEN conjunct2]
  have two: "Suc (length [Inr \<lparr>stream_Choices = [\<lparr>Delta = \<lparr>delta_Content = ''hello ''\<rparr>\<rparr>]\<rparr>
                :: error + ChatCompletionStreamResponse]) = 2"
    by simp
  from a b c d [unfolded two] show ?thesis
    by (simp add: stream_Recv_def)
qed

text \<open>
  C10. The result of every \<open>Recv\<close> is one of DELTA, EMPTY, DONE and ERROR and no two of
  them; it never has both a response and an error; a response that is returned has the
  assistant role and non-empty content.
\<close>

theorem Recv_four_outcomes:
  "(is_DELTA (fst (Recv s)) \<or> is_EMPTY (fst (Recv s)) \<or> is_DONE (fst (Recv s))
      \<or> is_ERROR (fst (Recv s)))
   \<and> \<not> (is_DELTA (fst (Recv s)) \<and> is_EMPTY (fst (Recv s)))
   \<and> \<not> (is_DELTA (fst (Recv s)) \<and> is_DONE (fst (Recv s)))
   \<and> \<not> (is_DELTA (fst (Recv s)) \<and> is_ERROR (fst (Recv s)))
   \<and> \<not> (is_EMPTY (fst (Recv s)) \<and> is_DONE (fst (Recv s)))
   \<and> \<not> (is_EMPTY (fst (Recv s)) \<and> is_ERROR (fst (Recv s)))
   \<and> \<not> (is_DONE (fst (Recv s)) \<and> is_ERROR (fst (Recv s)))
   \<and> \<not> (fst (fst (Recv s)) \<noteq> None \<and> snd (fst (Recv s)) \<noteq> None)
   \<and> (\<forall>r. fst (fst (Recv s)) = Some r
          \<longrightarrow> Role (Message r) = RoleAssistant \<and> Content (Message r) \<noteq> [])"
proof -
  obtain x st where u: "stream_Recv (stream s) = (x, st)"
    by (cases "stream_Recv (stream s)")
  show ?thesis
  proof (cases x)
    case (Inl err)
    then have "fst (Recv s) = (None, Some err)"
      using u by (simp add: Recv_def)
    then show ?thesis
      by (simp add: is_DELTA_def is_EMPTY_def is_DONE_def is_ERROR_def)
  next
    case (Inr chunk)
    then have "fst (Recv s) = (None, None)
       \<or> (delta_Content (Delta (stream_Choices chunk ! 0)) \<noteq> []
          \<and> fst (Recv s) =
              (Some \<lparr>Message = \<lparr>Role = RoleAssistant,
                                 Content = delta_Content (Delta (stream_Choices chunk ! 0))\<rparr>\<rparr>, None))"
      using u by (simp add: Recv_def Let_def)
    then show ?thesis
      by (auto simp add: is_DELTA_def is_EMPTY_def is_DONE_def is_ERROR_def)
  qed
qed

theorem Recv_four_outcomes_witness:
  "fst (fst (Recv \<lparr>stream = [Inr \<lparr>stream_Choices = [\<lparr>Delta = \<lparr>delta_Content = ''hello ''\<rparr>\<rparr>]\<rparr>]\<rparr>)) =
     Some \<lparr>Message = \<lparr>Role = ''assistant'', Content = ''hello ''\<rparr>\<rparr>
   \<and> Role (Message \<lparr>Message = \<lparr>Role = ''assistant'', Content = ''hello ''\<rparr>\<rparr>) = RoleAssistant
   \<and> Content (Message \<lparr>Message = \<lparr>Role = ''assistant'', Content = ''hello ''\<rparr>\<rparr>) \<noteq> []
   \<and> is_DELTA (fst (Recv \<lparr>stream = [Inr \<lparr>stream_Choices = [\<lparr>Delta = \<lparr>delta_Content = ''hello ''\<rparr>\<rparr>]\<rparr>]\<rparr>))
   \<and> \<not> is_EMPTY (fst (Recv \<lparr>stream = [Inr \<lparr>stream_Choices = [\<lparr>Delta = \<lparr>delta_Content = ''hello ''\<rparr>\<rparr>]\<rparr>]\<rparr>))
   \<and> \<not> is_DONE (fst (Recv \<lparr>stream = [Inr \<lparr>stream_Choices = [\<lparr>Delta = \<lparr>delta_Content = ''hello ''\<rparr>\<rparr>]\<rparr>]\<rparr>))
   \<and> \<not> is_ERROR (fst (Recv \<lparr>stream = [Inr \<lparr>stream_Choices = [\<lparr>Delta = \<lparr>delta_Content = ''hello ''\<rparr>\<rparr>]\<rparr>]\<rparr>))"
proof -
  have r: "fst (Recv \<lparr>stream = [Inr \<lparr>stream_Choices = [\<lparr>Delta = \<lparr>delta_Content = ''hello ''\<rparr>\<rparr>]\<rparr>]\<rparr>) =
      (Some \<lparr>Message = \<lparr>Role = ''assistant'', Content = ''hello ''\<rparr>\<rparr>, None)"
    by (simp add: Recv_def stream_Recv_def RoleAssistant_def)
  have d: "is_DELTA (fst (Recv \<lparr>stream = [Inr \<lparr>stream_Choices = [\<lparr>Delta = \<lparr>delta_Content = ''hello ''\<rparr>\<rparr>]\<rparr>]\<rparr>))"
    by (simp add: r is_DELTA_def)
  from Recv_four_outcomes
    [where s = "\<lparr>stream = [Inr \<lparr>stream_Choices = [\<lparr>Delta = \<lparr>delta_Content = ''hello ''\<rparr>\<rparr>]\<rparr>]\<rparr>"]
    r d show ?thesis
    by auto
qed

end
